theory Spec2Isabelle
  imports Main "HOL-Library.Char_ord" "HOL-Library.List_Lexorder" "HOL-Library.AList"
begin

section \<open>Bytes and strings\<close>

text \<open>
  A Go string is a sequence of bytes; it is modelled as a \<^typ>\<open>string\<close>, whose
  characters are bytes. \<open>byte c\<close> is the numeric value of the byte \<open>c\<close>.
\<close>

abbreviation byte :: "char \<Rightarrow> nat" where
  "byte c \<equiv> of_char c"

definition between :: "char \<Rightarrow> char \<Rightarrow> char \<Rightarrow> bool" where
  \<comment> \<open>\<open>lo <= c && c <= hi\<close> on bytes\<close>
  "between lo hi c = (byte lo \<le> byte c \<and> byte c \<le> byte hi)"

fun HasPrefix :: "string \<Rightarrow> string \<Rightarrow> bool" where
  "HasPrefix s [] = True"
| "HasPrefix [] (p # ps) = False"
| "HasPrefix (c # s) (p # ps) = (c = p \<and> HasPrefix s ps)"

definition HasSuffix :: "string \<Rightarrow> string \<Rightarrow> bool" where
  "HasSuffix s p = HasPrefix (rev s) (rev p)"

definition TrimPrefix :: "string \<Rightarrow> string \<Rightarrow> string" where
  "TrimPrefix s p = (if HasPrefix s p then drop (length p) s else s)"

fun Index :: "string \<Rightarrow> string \<Rightarrow> nat option" where
  \<comment> \<open>\<open>strings.Index\<close>: the position of the first occurrence, \<open>None\<close> for \<open>-1\<close>\<close>
  "Index [] p = (if p = [] then Some 0 else None)"
| "Index (c # s) p =
     (if HasPrefix (c # s) p then Some 0
      else (case Index s p of None \<Rightarrow> None | Some i \<Rightarrow> Some (Suc i)))"

fun LastIndexByte :: "string \<Rightarrow> char \<Rightarrow> nat option" where
  \<comment> \<open>\<open>strings.LastIndex\<close> with a one-byte separator\<close>
  "LastIndexByte [] b = None"
| "LastIndexByte (c # s) b =
     (case LastIndexByte s b of
        Some i \<Rightarrow> Some (Suc i)
      | None \<Rightarrow> (if c = b then Some 0 else None))"

fun Split :: "string \<Rightarrow> char \<Rightarrow> string list" where
  \<comment> \<open>\<open>strings.Split\<close> with a one-byte separator: never the empty list\<close>
  "Split [] b = [[]]"
| "Split (c # s) b =
     (if c = b then [] # Split s b
      else (case Split s b of [] \<Rightarrow> [[c]] | x # xs \<Rightarrow> (c # x) # xs))"

fun Join :: "string list \<Rightarrow> string \<Rightarrow> string" where
  "Join [] sep = []"
| "Join [x] sep = x"
| "Join (x # y # xs) sep = x @ sep @ Join (y # xs) sep"

section \<open>Percent-encoding of \<open>net/url\<close>\<close>

text \<open>
  The handlers build and print their URLs with Go's standard library. The part of
  \<open>net/url\<close> that they reach is modelled here function by function, with the
  library's names, after the library of Go 1.14. Where the library makes two passes over a
  string (one to validate and count, one to write), the model makes one; the texts of the
  library's error messages are shortened, since no caller reads them.
\<close>

datatype encoding =
  encodePath | encodePathSegment | encodeHost | encodeZone
| encodeUserPassword | encodeQueryComponent | encodeFragment

datatype url_error =
  EscapeError string
| InvalidHostError string
| errors_New string

definition ishex :: "char \<Rightarrow> bool" where
  "ishex c = (between CHR ''0'' CHR ''9'' c \<or> between CHR ''a'' CHR ''f'' c
              \<or> between CHR ''A'' CHR ''F'' c)"

definition unhex :: "char \<Rightarrow> nat" where
  "unhex c =
     (if between CHR ''0'' CHR ''9'' c then byte c - byte CHR ''0''
      else if between CHR ''a'' CHR ''f'' c then byte c - byte CHR ''a'' + 10
      else if between CHR ''A'' CHR ''F'' c then byte c - byte CHR ''A'' + 10
      else 0)"

definition shouldEscape :: "char \<Rightarrow> encoding \<Rightarrow> bool" where
  "shouldEscape c mode =
     (if between CHR ''a'' CHR ''z'' c \<or> between CHR ''A'' CHR ''Z'' c
         \<or> between CHR ''0'' CHR ''9'' c then False
      else if (mode = encodeHost \<or> mode = encodeZone)
              \<and> c \<in> set ''!$&'' \<union> {CHR 0x27} \<union> set ''()*+,;=:[]<>'' \<union> {CHR 0x22}
        then False
      else if c \<in> set ''-_.~'' then False
      else if c \<in> set ''$&+,/:;=?@'' \<and> mode = encodePath then c = CHR ''?''
      else if c \<in> set ''$&+,/:;=?@'' \<and> mode = encodePathSegment
        then c = CHR ''/'' \<or> c = CHR '';'' \<or> c = CHR '','' \<or> c = CHR ''?''
      else if c \<in> set ''$&+,/:;=?@'' \<and> mode = encodeUserPassword
        then c = CHR ''@'' \<or> c = CHR ''/'' \<or> c = CHR ''?'' \<or> c = CHR '':''
      else if c \<in> set ''$&+,/:;=?@'' \<and> mode = encodeQueryComponent then True
      else if c \<in> set ''$&+,/:;=?@'' \<and> mode = encodeFragment then False
      else if mode = encodeFragment \<and> c \<in> set ''!()*'' then False
      else True)"

definition upperhex :: string where
  "upperhex = ''0123456789ABCDEF''"

definition escape_byte :: "encoding \<Rightarrow> char \<Rightarrow> string" where
  \<comment> \<open>what the second loop of \<open>escape\<close> writes for one byte\<close>
  "escape_byte mode c =
     (if c = CHR '' '' \<and> mode = encodeQueryComponent then ''+''
      else if shouldEscape c mode
        then [CHR ''%'', upperhex ! (byte c div 16), upperhex ! (byte c mod 16)]
      else [c])"

definition escape :: "string \<Rightarrow> encoding \<Rightarrow> string" where
  "escape s mode = concat (map (escape_byte mode) s)"

fun unescape :: "string \<Rightarrow> encoding \<Rightarrow> url_error + string" where
  "unescape [] mode = Inr []"
| "unescape (c # s) mode =
     (if c = CHR ''%'' then
        (case s of
           a # b # rest \<Rightarrow>
             if \<not> ishex a \<or> \<not> ishex b then Inl (EscapeError [c, a, b])
             else if mode = encodeHost \<and> unhex a < 8 \<and> [c, a, b] \<noteq> ''%25''
               then Inl (EscapeError [c, a, b])
             else if mode = encodeZone \<and> [c, a, b] \<noteq> ''%25''
                     \<and> char_of (unhex a * 16 + unhex b) \<noteq> CHR '' ''
                     \<and> shouldEscape (char_of (unhex a * 16 + unhex b)) encodeHost
               then Inl (EscapeError [c, a, b])
             else (case unescape rest mode of
                     Inl e \<Rightarrow> Inl e
                   | Inr t \<Rightarrow> Inr (char_of (unhex a * 16 + unhex b) # t))
         | _ \<Rightarrow> Inl (EscapeError (c # s)))
      else if c = CHR ''+'' then
        (case unescape s mode of
           Inl e \<Rightarrow> Inl e
         | Inr t \<Rightarrow> Inr ((if mode = encodeQueryComponent then CHR '' '' else CHR ''+'') # t))
      else if (mode = encodeHost \<or> mode = encodeZone) \<and> byte c < 0x80
              \<and> shouldEscape c encodeHost
        then Inl (InvalidHostError [c])
      else (case unescape s mode of Inl e \<Rightarrow> Inl e | Inr t \<Rightarrow> Inr (c # t)))"

definition QueryEscape :: "string \<Rightarrow> string" where
  "QueryEscape s = escape s encodeQueryComponent"

definition QueryUnescape :: "string \<Rightarrow> url_error + string" where
  "QueryUnescape s = unescape s encodeQueryComponent"

section \<open>The URL value of \<open>net/url\<close>\<close>

datatype Userinfo = Userinfo (username: string) (password: string) (passwordSet: bool)

record URL =
  Scheme :: string
  Opaque :: string
  User :: "Userinfo option"
  Host :: string
  Path :: string
  RawPath :: string
  ForceQuery :: bool
  RawQuery :: string
  Fragment :: string

definition URL_zero :: URL where
  \<comment> \<open>\<open>url.URL{}\<close>: every field at its zero value\<close>
  "URL_zero = \<lparr>Scheme = [], Opaque = [], User = None, Host = [], Path = [], RawPath = [],
                ForceQuery = False, RawQuery = [], Fragment = []\<rparr>"

definition Userinfo_String :: "Userinfo \<Rightarrow> string" where
  "Userinfo_String ui =
     escape (username ui) encodeUserPassword
     @ (if passwordSet ui then '':'' @ escape (password ui) encodeUserPassword else [])"

definition validEncodedPath :: "string \<Rightarrow> bool" where
  "validEncodedPath s =
     (\<forall>c \<in> set s.
        c \<in> set ''!$&'' \<union> {CHR 0x27} \<union> set ''()*+,;=:@'' \<or> c \<in> set ''[]'' \<or> c = CHR ''%''
        \<or> \<not> shouldEscape c encodePath)"

definition EscapedPath :: "URL \<Rightarrow> string" where
  "EscapedPath u =
     (if RawPath u \<noteq> [] \<and> validEncodedPath (RawPath u)
         \<and> unescape (RawPath u) encodePath = Inr (Path u)
      then RawPath u
      else if Path u = ''*'' then ''*''
      else escape (Path u) encodePath)"

definition setPath :: "URL \<Rightarrow> string \<Rightarrow> url_error + URL" where
  "setPath u p =
     (case unescape p encodePath of
        Inl e \<Rightarrow> Inl e
      | Inr path' \<Rightarrow>
          Inr (u\<lparr>Path := path',
                 RawPath := (if p = escape path' encodePath then [] else p)\<rparr>))"

definition String :: "URL \<Rightarrow> string" where
  "String u =
     (let buf = (if Scheme u \<noteq> [] then Scheme u @ '':'' else []);
          buf = (if Opaque u \<noteq> [] then buf @ Opaque u
                 else
                   (let buf = (if Scheme u \<noteq> [] \<or> Host u \<noteq> [] \<or> User u \<noteq> None
                               then buf
                                 @ (if Host u \<noteq> [] \<or> Path u \<noteq> [] \<or> User u \<noteq> None
                                    then ''//'' else [])
                                 @ (case User u of
                                      None \<Rightarrow> []
                                    | Some ui \<Rightarrow> Userinfo_String ui @ ''@'')
                                 @ (if Host u \<noteq> [] then escape (Host u) encodeHost else [])
                               else buf);
                        path' = EscapedPath u;
                        buf = (if path' \<noteq> [] \<and> hd path' \<noteq> CHR ''/'' \<and> Host u \<noteq> []
                               then buf @ ''/'' else buf);
                        buf = (if buf = []
                                  \<and> CHR '':'' \<in> set path'
                                  \<and> CHR ''/'' \<notin> set (takeWhile (\<lambda>c. c \<noteq> CHR '':'') path')
                               then buf @ ''./'' else buf)
                    in buf @ path'));
          buf = (if ForceQuery u \<or> RawQuery u \<noteq> [] then buf @ ''?'' @ RawQuery u else buf);
          buf = (if Fragment u \<noteq> [] then buf @ ''#'' @ escape (Fragment u) encodeFragment
                 else buf)
      in buf)"

definition resolve_elem :: "string list \<Rightarrow> string \<Rightarrow> string list" where
  \<comment> \<open>the body of the loop of \<open>resolvePath\<close> over the path elements\<close>
  "resolve_elem dst elem =
     (if elem = ''.'' then dst
      else if elem = ''..'' then (if dst \<noteq> [] then butlast dst else dst)
      else dst @ [elem])"

definition resolvePath :: "string \<Rightarrow> string \<Rightarrow> string" where
  "resolvePath base ref =
     (let full = (if ref = [] then base
                  else if hd ref \<noteq> CHR ''/'' then
                    (case LastIndexByte base CHR ''/'' of
                       None \<Rightarrow> ref
                     | Some i \<Rightarrow> take (i + 1) base @ ref)
                  else ref)
      in if full = [] then []
         else
           (let src = Split full CHR ''/'';
                dst = foldl resolve_elem [] src;
                dst = (if last src = ''.'' \<or> last src = ''..'' then dst @ [[]] else dst)
            in ''/'' @ TrimPrefix (Join dst ''/'') ''/''))"

definition setPath_ignoring_error :: "URL \<Rightarrow> string \<Rightarrow> URL" where
  \<comment> \<open>\<open>url.setPath(...)\<close> as a statement: on an error the URL is left as it was\<close>
  "setPath_ignoring_error u p = (case setPath u p of Inl e \<Rightarrow> u | Inr u' \<Rightarrow> u')"

definition ResolveReference :: "URL \<Rightarrow> URL \<Rightarrow> URL" where
  "ResolveReference u ref =
     (let url = ref;
          url = (if Scheme ref = [] then url\<lparr>Scheme := Scheme u\<rparr> else url)
      in if Scheme ref \<noteq> [] \<or> Host ref \<noteq> [] \<or> User ref \<noteq> None
         then setPath_ignoring_error url (resolvePath (EscapedPath ref) [])
         else if Opaque ref \<noteq> []
         then url\<lparr>User := None, Host := [], Path := []\<rparr>
         else
           (let url = (if Path ref = [] \<and> RawQuery ref = []
                       then (let url = url\<lparr>RawQuery := RawQuery u\<rparr>
                             in if Fragment ref = [] then url\<lparr>Fragment := Fragment u\<rparr>
                                else url)
                       else url);
                url = url\<lparr>Host := Host u, User := User u\<rparr>
            in setPath_ignoring_error url (resolvePath (EscapedPath u) (EscapedPath ref))))"

subsection \<open>Query values\<close>

text \<open>
  \<open>url.Values\<close> is a \<open>map[string][]string\<close>. It is modelled as an association list
  with one entry for each key; \<open>Encode\<close> reads the keys in sorted order, so the order
  of the entries is never observed.
\<close>

type_synonym Values = "(string \<times> string list) list"

definition Values_lookup :: "Values \<Rightarrow> string \<Rightarrow> string list" where
  \<comment> \<open>\<open>v[key]\<close>: \<open>nil\<close> for a missing key\<close>
  "Values_lookup v key = (case map_of v key of None \<Rightarrow> [] | Some vs \<Rightarrow> vs)"


definition Values_Set :: "Values \<Rightarrow> string \<Rightarrow> string \<Rightarrow> Values" where
  "Values_Set v key val = AList.update key [val] v"

fun SplitAny :: "string \<Rightarrow> string \<Rightarrow> string list" where
  \<comment> \<open>the pieces that repeated \<open>strings.IndexAny(s, chars)\<close> cuts off\<close>
  "SplitAny [] chars = [[]]"
| "SplitAny (c # s) chars =
     (if c \<in> set chars then [] # SplitAny s chars
      else (case SplitAny s chars of [] \<Rightarrow> [[c]] | x # xs \<Rightarrow> (c # x) # xs))"

definition cut_byte :: "string \<Rightarrow> char \<Rightarrow> string \<times> string" where
  \<comment> \<open>\<open>s[:i], s[i+1:]\<close> at the first \<open>b\<close>; the whole of \<open>s\<close> and \<open>""\<close> without one\<close>
  "cut_byte s b = (takeWhile (\<lambda>c. c \<noteq> b) s, drop 1 (dropWhile (\<lambda>c. c \<noteq> b) s))"

definition parseQuery_piece ::
  "Values \<times> url_error option \<Rightarrow> string \<Rightarrow> Values \<times> url_error option" where
  \<comment> \<open>one turn of the loop of \<open>parseQuery\<close>, on the piece cut off at \<open>&\<close> or \<open>;\<close>\<close>
  "parseQuery_piece st piece =
     (let (m, err) = st
      in if piece = [] then (m, err)
         else
           (let (key, val) = cut_byte piece CHR ''=''
            in case QueryUnescape key of
                 Inl e1 \<Rightarrow> (m, if err = None then Some e1 else err)
               | Inr key' \<Rightarrow>
                   (case QueryUnescape val of
                      Inl e1 \<Rightarrow> (m, if err = None then Some e1 else err)
                    | Inr val' \<Rightarrow>
                        (AList.update key' (Values_lookup m key' @ [val']) m, err))))"

definition ParseQuery :: "string \<Rightarrow> Values \<times> url_error option" where
  "ParseQuery query = foldl parseQuery_piece ([], None) (SplitAny query ''&;'')"

definition Query :: "URL \<Rightarrow> Values" where
  "Query u = fst (ParseQuery (RawQuery u))"

definition Values_Encode :: "Values \<Rightarrow> string" where
  "Values_Encode v =
     Join (concat (map (\<lambda>k. map (\<lambda>val. QueryEscape k @ ''='' @ QueryEscape val)
                                 (Values_lookup v k))
                       (sort (map fst v))))
          ''&''"

section \<open>Header names: \<open>http.CanonicalHeaderKey\<close>\<close>

definition validHeaderFieldByte :: "char \<Rightarrow> bool" where
  \<comment> \<open>the token table of \<open>net/textproto\<close>\<close>
  "validHeaderFieldByte b =
     (between CHR ''a'' CHR ''z'' b \<or> between CHR ''A'' CHR ''Z'' b
      \<or> between CHR ''0'' CHR ''9'' b
      \<or> b \<in> set ''!#$%&'' \<union> {CHR 0x27} \<union> set ''*+-.^_'' \<union> {CHR 0x60} \<union> set ''|~'')"

definition toLower :: nat where
  "toLower = byte CHR ''a'' - byte CHR ''A''"

fun needs_canonical :: "bool \<Rightarrow> string \<Rightarrow> bool" where
  \<comment> \<open>the quick check of \<open>CanonicalMIMEHeaderKey\<close>: whether its loop leaves for
      \<open>canonicalMIMEHeaderKey\<close> (otherwise it returns \<open>s\<close>)\<close>
  "needs_canonical upper [] = False"
| "needs_canonical upper (c # s) =
     (if \<not> validHeaderFieldByte c then False
      else if upper \<and> between CHR ''a'' CHR ''z'' c then True
      else if \<not> upper \<and> between CHR ''A'' CHR ''Z'' c then True
      else needs_canonical (c = CHR ''-'') s)"

fun canonical_bytes :: "bool \<Rightarrow> string \<Rightarrow> string" where
  \<comment> \<open>the second loop of \<open>canonicalMIMEHeaderKey\<close>\<close>
  "canonical_bytes upper [] = []"
| "canonical_bytes upper (c # s) =
     (let c' = (if upper \<and> between CHR ''a'' CHR ''z'' c then char_of (byte c - toLower)
                else if \<not> upper \<and> between CHR ''A'' CHR ''Z'' c then char_of (byte c + toLower)
                else c)
      in c' # canonical_bytes (c' = CHR ''-'') s)"

definition canonicalMIMEHeaderKey :: "string \<Rightarrow> string" where
  \<comment> \<open>the table of common headers returns a string equal to its key\<close>
  "canonicalMIMEHeaderKey a =
     (if \<exists>c \<in> set a. \<not> validHeaderFieldByte c then a else canonical_bytes True a)"

definition CanonicalMIMEHeaderKey :: "string \<Rightarrow> string" where
  "CanonicalMIMEHeaderKey s = (if needs_canonical True s then canonicalMIMEHeaderKey s else s)"

definition CanonicalHeaderKey :: "string \<Rightarrow> string" where
  "CanonicalHeaderKey s = CanonicalMIMEHeaderKey s"

section \<open>Parsing a URL: \<open>url.Parse\<close>\<close>

definition stringContainsCTLByte :: "string \<Rightarrow> bool" where
  "stringContainsCTLByte s = (\<exists>b \<in> set s. byte b < byte CHR '' '' \<or> byte b = 0x7f)"

fun getscheme_from :: "nat \<Rightarrow> string \<Rightarrow> string \<Rightarrow> url_error + string \<times> string" where
  \<comment> \<open>the loop of \<open>getscheme\<close> at index \<open>i\<close>; the last argument is \<open>rawurl[i:]\<close>\<close>
  "getscheme_from i rawurl [] = Inr ([], rawurl)"
| "getscheme_from i rawurl (c # s) =
     (if between CHR ''a'' CHR ''z'' c \<or> between CHR ''A'' CHR ''Z'' c
        then getscheme_from (Suc i) rawurl s
      else if between CHR ''0'' CHR ''9'' c \<or> c = CHR ''+'' \<or> c = CHR ''-'' \<or> c = CHR ''.''
        then (if i = 0 then Inr ([], rawurl) else getscheme_from (Suc i) rawurl s)
      else if c = CHR '':''
        then (if i = 0 then Inl (errors_New ''missing protocol scheme'')
              else Inr (take i rawurl, s))
      else Inr ([], rawurl))"

definition getscheme :: "string \<Rightarrow> url_error + string \<times> string" where
  "getscheme rawurl = getscheme_from 0 rawurl rawurl"

definition split :: "string \<Rightarrow> char \<Rightarrow> bool \<Rightarrow> string \<times> string" where
  \<comment> \<open>\<open>split(s, c, cutc)\<close> with a one-byte separator\<close>
  "split s c cutc =
     (if c \<notin> set s then (s, [])
      else if cutc then (takeWhile (\<lambda>x. x \<noteq> c) s, drop 1 (dropWhile (\<lambda>x. x \<noteq> c) s))
      else (takeWhile (\<lambda>x. x \<noteq> c) s, dropWhile (\<lambda>x. x \<noteq> c) s))"

definition ToLower :: "string \<Rightarrow> string" where
  \<comment> \<open>\<open>strings.ToLower\<close> on a scheme, which has ASCII bytes only\<close>
  "ToLower s =
     map (\<lambda>c. if between CHR ''A'' CHR ''Z'' c then char_of (byte c + toLower) else c) s"

definition validOptionalPort :: "string \<Rightarrow> bool" where
  "validOptionalPort port =
     (case port of
        [] \<Rightarrow> True
      | c # ds \<Rightarrow> c = CHR '':'' \<and> (\<forall>b \<in> set ds. between CHR ''0'' CHR ''9'' b))"

definition validUserinfo :: "string \<Rightarrow> bool" where
  "validUserinfo s =
     (\<forall>r \<in> set s.
        between CHR ''A'' CHR ''Z'' r \<or> between CHR ''a'' CHR ''z'' r
        \<or> between CHR ''0'' CHR ''9'' r
        \<or> r \<in> set ''-._:~!$&'' \<union> {CHR 0x27} \<union> set ''()*+,;=%@'')"

definition parseHost :: "string \<Rightarrow> url_error + string" where
  "parseHost host =
     (let plain = unescape host encodeHost
      in if HasPrefix host ''[''
         then
           (case LastIndexByte host CHR '']'' of
              None \<Rightarrow> Inl (errors_New ''missing ] in host'')
            | Some i \<Rightarrow>
                if \<not> validOptionalPort (drop (i + 1) host)
                then Inl (errors_New ''invalid port after host'')
                else
                  (case Index (take i host) ''%25'' of
                     None \<Rightarrow> plain
                   | Some zone \<Rightarrow>
                       (case unescape (take zone host) encodeHost of
                          Inl e \<Rightarrow> Inl e
                        | Inr host1 \<Rightarrow>
                            (case unescape (drop zone (take i host)) encodeZone of
                               Inl e \<Rightarrow> Inl e
                             | Inr host2 \<Rightarrow>
                                 (case unescape (drop i host) encodeHost of
                                    Inl e \<Rightarrow> Inl e
                                  | Inr host3 \<Rightarrow> Inr (host1 @ host2 @ host3))))))
         else
           (case LastIndexByte host CHR '':'' of
              None \<Rightarrow> plain
            | Some i \<Rightarrow>
                if \<not> validOptionalPort (drop i host)
                then Inl (errors_New ''invalid port after host'')
                else plain))"

definition parseAuthority :: "string \<Rightarrow> url_error + Userinfo option \<times> string" where
  "parseAuthority authority =
     (case LastIndexByte authority CHR ''@'' of
        None \<Rightarrow>
          (case parseHost authority of
             Inl e \<Rightarrow> Inl e
           | Inr host \<Rightarrow> Inr (None, host))
      | Some i \<Rightarrow>
          (case parseHost (drop (i + 1) authority) of
             Inl e \<Rightarrow> Inl e
           | Inr host \<Rightarrow>
               (let userinfo = take i authority
                in if \<not> validUserinfo userinfo
                   then Inl (errors_New ''net/url: invalid userinfo'')
                   else if CHR '':'' \<notin> set userinfo
                   then
                     (case unescape userinfo encodeUserPassword of
                        Inl e \<Rightarrow> Inl e
                      | Inr name \<Rightarrow> Inr (Some (Userinfo name [] False), host))
                   else
                     (let (name, pass) = split userinfo CHR '':'' True
                      in case unescape name encodeUserPassword of
                           Inl e \<Rightarrow> Inl e
                         | Inr name' \<Rightarrow>
                             (case unescape pass encodeUserPassword of
                                Inl e \<Rightarrow> Inl e
                              | Inr pass' \<Rightarrow> Inr (Some (Userinfo name' pass' True), host))))))"

definition parse_authority_and_path :: "URL \<Rightarrow> string \<Rightarrow> bool \<Rightarrow> url_error + URL" where
  \<comment> \<open>the end of \<open>parse\<close>: the authority after \<open>//\<close>, then \<open>setPath\<close>\<close>
  "parse_authority_and_path url rest viaRequest =
     (if (Scheme url \<noteq> [] \<or> \<not> viaRequest \<and> \<not> HasPrefix rest ''///'') \<and> HasPrefix rest ''//''
      then
        (let (authority, rest') = split (drop 2 rest) CHR ''/'' False
         in case parseAuthority authority of
              Inl e \<Rightarrow> Inl e
            | Inr (user, host) \<Rightarrow> setPath (url\<lparr>User := user, Host := host\<rparr>) rest')
      else setPath url rest)"

definition parse :: "string \<Rightarrow> bool \<Rightarrow> url_error + URL" where
  "parse rawurl viaRequest =
     (if stringContainsCTLByte rawurl
        then Inl (errors_New ''net/url: invalid control character in URL'')
      else if rawurl = [] \<and> viaRequest then Inl (errors_New ''empty url'')
      else if rawurl = ''*'' then Inr (URL_zero\<lparr>Path := ''*''\<rparr>)
      else
        (case getscheme rawurl of
           Inl e \<Rightarrow> Inl e
         | Inr (scheme, rest) \<Rightarrow>
             (let url = URL_zero\<lparr>Scheme := ToLower scheme\<rparr>;
                  (rest, url) =
                     (if HasSuffix rest ''?'' \<and> count_list rest CHR ''?'' = 1
                      then (butlast rest, url\<lparr>ForceQuery := True\<rparr>)
                      else (let (rest', query) = split rest CHR ''?'' True
                            in (rest', url\<lparr>RawQuery := query\<rparr>)))
              in if \<not> HasPrefix rest ''/'' \<and> Scheme url \<noteq> []
                   then Inr (url\<lparr>Opaque := rest\<rparr>)
                 else if \<not> HasPrefix rest ''/'' \<and> viaRequest
                   then Inl (errors_New ''invalid URI for request'')
                 else if \<not> HasPrefix rest ''/'' \<and> CHR '':'' \<in> set rest
                         \<and> CHR ''/'' \<notin> set (takeWhile (\<lambda>c. c \<noteq> CHR '':'') rest)
                   then Inl (errors_New ''first path segment in URL cannot contain colon'')
                 else parse_authority_and_path url rest viaRequest)))"

definition Parse :: "string \<Rightarrow> url_error + URL" where
  "Parse rawurl =
     (let (u, frag) = split rawurl CHR ''#'' True
      in case parse u False of
           Inl e \<Rightarrow> Inl e
         | Inr url \<Rightarrow>
             if frag = [] then Inr url
             else (case unescape frag encodeFragment of
                     Inl e \<Rightarrow> Inl e
                   | Inr f \<Rightarrow> Inr (url\<lparr>Fragment := f\<rparr>)))"

section \<open>The messages of the two calls\<close>

text \<open>
  A Go call either returns or panics.
\<close>

datatype 'a call = Panic | Return 'a

text \<open>
  The errors of the session store. The five named values are the sentinels of the
  package \<open>sessions\<close>, which the handler compares by identity; \<open>Err m\<close> is any other
  error value, with its message \<open>m\<close>.
\<close>

datatype error =
  ErrExpired | ErrIssuedInTheFuture | ErrMalformed | ErrNoSessionFound | ErrNotValidYet
| Err string

definition Error :: "(error \<Rightarrow> string) \<Rightarrow> error \<Rightarrow> string" where
  \<comment> \<open>\<open>err.Error()\<close>; the texts of the sentinels are given by the package \<open>sessions\<close>\<close>
  "Error sessions_text e = (case e of Err m \<Rightarrow> m | _ \<Rightarrow> sessions_text e)"

text \<open>
  The HTTP attributes of a check request. \<open>GetHeaders\<close> is a \<open>map[string]string\<close>:
  an association list with one entry for each key, in the order in which a \<open>range\<close>
  over the map visits the entries (Go leaves that order open).
\<close>

record AttributeContext_HttpRequest =
  GetMethod :: string
  GetHeaders :: "(string \<times> string) list"
  GetPath :: string
  GetHost :: string
  GetScheme :: string
  GetQuery :: string

record CheckRequest =
  GetHttp :: "AttributeContext_HttpRequest option"
    \<comment> \<open>\<open>GetAttributes().GetRequest().GetHttp()\<close>, \<open>None\<close> when it is \<open>nil\<close>\<close>
  GetSourceAddress :: string
    \<comment> \<open>\<open>GetAttributes().GetSource().GetAddress().String()\<close>\<close>

record Request =
  Request_User :: string
  Request_Header :: "string \<rightharpoonup> string list"
  Request_Host :: string
  Request_Method :: string
  Request_RequestURI :: string
  Request_RemoteAddr :: string
  Request_URL :: string

record IsAuthorizedReply =
  Allow :: bool

datatype Code = OK | PermissionDenied | Unauthenticated

datatype StatusCode = StatusCode_Empty | StatusCode_Found | StatusCode_Forbidden

record Status =
  Code :: Code
  Message :: string

record DeniedHttpResponse =
  Denied_Status :: StatusCode
  Denied_Headers :: "(string \<times> string) list"
    \<comment> \<open>the \<open>Key\<close> and \<open>Value\<close> of each header option\<close>

datatype HttpResponse =
  CheckResponse_OkResponse
| CheckResponse_DeniedResponse DeniedHttpResponse

record CheckResponse =
  Response_Status :: Status
  Response_HttpResponse :: HttpResponse

text \<open>
  What the handlers use of the service \<open>Authorize\<close> and of the packages that are
  called and not defined in these files: the policy evaluator, the signer and the
  cookie store built from the current options, the name of the redirect parameter of
  \<open>urlutil\<close>, and the texts of the sentinel errors.
\<close>

record Authorize =
  pe_IsAuthorized :: "Request \<Rightarrow> error + IsAuthorizedReply"
  NewHS256Signer :: "error option"
    \<comment> \<open>the error of \<open>jws.NewHS256Signer\<close> on the current options, \<open>None\<close> for \<open>nil\<close>\<close>
  NewStore :: "error option"
    \<comment> \<open>the error of \<open>cookie.NewStore\<close>\<close>
  LoadSession :: "(string \<rightharpoonup> string list) \<Rightarrow> string \<times> error option"
  QueryRedirectURI :: string
  sessions_text :: "error \<Rightarrow> string"

section \<open>The handlers\<close>

definition http_Headers :: "CheckRequest \<Rightarrow> (string \<times> string) list" where
  \<comment> \<open>\<open>req.GetAttributes().GetRequest().GetHttp().GetHeaders()\<close>: the getters accept \<open>nil\<close>\<close>
  "http_Headers r = (case GetHttp r of None \<Rightarrow> [] | Some h \<Rightarrow> GetHeaders h)"

definition set_header :: "(string \<rightharpoonup> string list) \<Rightarrow> string \<times> string \<Rightarrow> (string \<rightharpoonup> string list)" where
  \<comment> \<open>the body of the loop: \<open>h[http.CanonicalHeaderKey(k)] = []string{v}\<close>\<close>
  "set_header h kv = h(CanonicalHeaderKey (fst kv) \<mapsto> [snd kv])"

definition getCheckRequestHeaders :: "CheckRequest \<Rightarrow> (string \<rightharpoonup> string list)" where
  "getCheckRequestHeaders r = foldl set_header Map.empty (http_Headers r)"

definition getCheckRequestURL :: "CheckRequest \<Rightarrow> URL call" where
  \<comment> \<open>the getters accept a \<open>nil\<close> receiver; reading the field \<open>h.Headers\<close> does not\<close>
  "getCheckRequestURL r =
     (case GetHttp r of
        None \<Rightarrow> Panic
      | Some h \<Rightarrow>
          (let u = URL_zero\<lparr>Scheme := GetScheme h, Host := GetHost h, Path := GetPath h,
                            RawQuery := GetQuery h\<rparr>
           in case map_of (GetHeaders h) ''x-forwarded-proto'' of
                Some fwdProto \<Rightarrow> Return (u\<lparr>Scheme := fwdProto\<rparr>)
              | None \<Rightarrow> Return u))"

definition loadSessionFromCheckRequest :: "Authorize \<Rightarrow> CheckRequest \<Rightarrow> string \<times> error option" where
  "loadSessionFromCheckRequest a r =
     (case NewHS256Signer a of
        Some err \<Rightarrow> ([], Some err)
      | None \<Rightarrow>
          (case NewStore a of
             Some err \<Rightarrow> ([], Some err)
           | None \<Rightarrow> LoadSession a (getCheckRequestHeaders r)))"

definition Check_request :: "CheckRequest \<Rightarrow> string \<Rightarrow> URL \<Rightarrow> Request" where
  \<comment> \<open>the \<open>evaluator.Request\<close> that \<open>Check\<close> hands to the evaluator\<close>
  "Check_request r sess requestURL =
     \<lparr>Request_User = sess,
      Request_Header = getCheckRequestHeaders r,
      Request_Host = (case GetHttp r of None \<Rightarrow> [] | Some h \<Rightarrow> GetHost h),
      Request_Method = (case GetHttp r of None \<Rightarrow> [] | Some h \<Rightarrow> GetMethod h),
      Request_RequestURI = String requestURL,
      Request_RemoteAddr = GetSourceAddress r,
      Request_URL = String requestURL\<rparr>"

definition signin_reference :: URL where
  \<comment> \<open>\<open>&url.URL{Path: "/.pomerium/sign_in"}\<close>\<close>
  "signin_reference = URL_zero\<lparr>Path := ''/.pomerium/sign_in''\<rparr>"

definition signinURL :: "Authorize \<Rightarrow> URL \<Rightarrow> URL" where
  \<comment> \<open>\<open>signinURL\<close> of \<open>Check\<close>, once its query is set\<close>
  "signinURL a requestURL =
     (let signinURL = ResolveReference requestURL signin_reference;
          q = Query signinURL;
          q = Values_Set q (QueryRedirectURI a) (String requestURL)
      in signinURL\<lparr>RawQuery := Values_Encode q\<rparr>)"

definition Check :: "Authorize \<Rightarrow> CheckRequest \<Rightarrow> (error + CheckResponse) call" where
  "Check a r =
     (let (sess, sesserr) = loadSessionFromCheckRequest a r
      in case getCheckRequestURL r of
           Panic \<Rightarrow> Panic
         | Return requestURL \<Rightarrow>
             (case pe_IsAuthorized a (Check_request r sess requestURL) of
                Inl err \<Rightarrow> Return (Inl err)
              | Inr reply \<Rightarrow>
                  if Allow reply then
                    Return (Inr \<lparr>Response_Status = \<lparr>Code = OK, Message = ''OK''\<rparr>,
                                 Response_HttpResponse = CheckResponse_OkResponse\<rparr>)
                  else if sesserr = Some ErrExpired \<or> sesserr = Some ErrIssuedInTheFuture
                          \<or> sesserr = Some ErrMalformed \<or> sesserr = Some ErrNoSessionFound
                          \<or> sesserr = Some ErrNotValidYet
                  then
                    (let redirectTo = String (signinURL a requestURL)
                     in Return (Inr \<lparr>Response_Status =
                                       \<lparr>Code = Unauthenticated, Message = ''unauthenticated''\<rparr>,
                                     Response_HttpResponse =
                                       CheckResponse_DeniedResponse
                                         \<lparr>Denied_Status = StatusCode_Found,
                                          Denied_Headers = [(''Location'', redirectTo)]\<rparr>\<rparr>))
                  else
                    (let msg = (case sesserr of
                                  None \<Rightarrow> []
                                | Some e \<Rightarrow> Error (sessions_text a) e)
                     in Return (Inr \<lparr>Response_Status = \<lparr>Code = PermissionDenied, Message = msg\<rparr>,
                                     Response_HttpResponse =
                                       CheckResponse_DeniedResponse
                                         \<lparr>Denied_Status = StatusCode_Forbidden,
                                          Denied_Headers = []\<rparr>\<rparr>))))"

definition getFullURL_parsed :: "string \<Rightarrow> URL" where
  \<comment> \<open>\<open>u\<close> after the first statements of \<open>getFullURL\<close>: the parsed URL, or \<open>&url.URL{Path: rawurl}\<close>
      when \<open>url.Parse\<close> fails\<close>
  "getFullURL_parsed rawurl =
     (case Parse rawurl of Inl err \<Rightarrow> URL_zero\<lparr>Path := rawurl\<rparr> | Inr u \<Rightarrow> u)"

definition getFullURL_u :: "string \<Rightarrow> string \<Rightarrow> URL" where
  \<comment> \<open>\<open>u\<close> when \<open>getFullURL\<close> prints it\<close>
  "getFullURL_u rawurl host =
     (let u = getFullURL_parsed rawurl;
          u = (if Host u = [] then u\<lparr>Host := host\<rparr> else u);
          u = (if Scheme u = [] then u\<lparr>Scheme := ''http''\<rparr> else u)
      in u)"

definition getFullURL :: "string \<Rightarrow> string \<Rightarrow> string" where
  "getFullURL rawurl host = String (getFullURL_u rawurl host)"

section \<open>A sample call\<close>

text \<open>
  A request for \<open>http://a.com/foo?x=1\<close> and a service whose evaluator and session store
  answer with given values; the closed instances of the theorems below are stated on them.
\<close>

definition example_http :: AttributeContext_HttpRequest where
  "example_http = \<lparr>GetMethod = ''GET'', GetHeaders = [(''x-foo'', ''bar'')], GetPath = ''/foo'',
                    GetHost = ''a.com'', GetScheme = ''http'', GetQuery = ''x=1''\<rparr>"

definition example_request :: CheckRequest where
  "example_request = \<lparr>GetHttp = Some example_http, GetSourceAddress = []\<rparr>"

definition example_authorize :: "(error + IsAuthorizedReply) \<Rightarrow> error option \<Rightarrow> Authorize" where
  "example_authorize verdict sesserr =
     \<lparr>pe_IsAuthorized = (\<lambda>req. verdict), NewHS256Signer = None, NewStore = None,
      LoadSession = (\<lambda>hdrs. ([], sesserr)), QueryRedirectURI = ''pomerium_redirect_uri'',
      sessions_text = (\<lambda>e. [])\<rparr>"

definition example_url :: URL where
  "example_url = URL_zero\<lparr>Scheme := ''http'', Host := ''a.com'', Path := ''/foo'', RawQuery := ''x=1''\<rparr>"

definition colliding_http :: AttributeContext_HttpRequest where
  \<comment> \<open>two keys of the header map with one canonical form\<close>
  "colliding_http = \<lparr>GetMethod = ''GET'', GetHeaders = [(''x-foo'', ''bar''), (''X-Foo'', ''baz'')],
                      GetPath = ''/'', GetHost = ''a.com'', GetScheme = ''http'', GetQuery = []\<rparr>"

definition forwarded_http :: "string \<Rightarrow> AttributeContext_HttpRequest" where
  \<comment> \<open>a plain-HTTP request that carries \<open>https\<close> as forwarded protocol under the key \<open>k\<close>\<close>
  "forwarded_http k = \<lparr>GetMethod = ''GET'', GetHeaders = [(k, ''https'')],
                        GetPath = ''/foo'', GetHost = ''a.com'', GetScheme = ''http'', GetQuery = []\<rparr>"

section \<open>Properties of the sample call\<close>

lemma example_getCheckRequestURL: "getCheckRequestURL example_request = Return example_url"
  by (simp add: getCheckRequestURL_def example_request_def example_http_def example_url_def)

lemma example_loadSession:
  "loadSessionFromCheckRequest (example_authorize verdict sesserr) r = ([], sesserr)"
  by (simp add: loadSessionFromCheckRequest_def example_authorize_def)

lemma example_pe: "pe_IsAuthorized (example_authorize verdict sesserr) req = verdict"
  by (simp add: example_authorize_def)

section \<open>The sign-in URL\<close>

lemma EscapedPath_signin: "EscapedPath signin_reference = ''/.pomerium/sign_in''"
  by (simp add: EscapedPath_def signin_reference_def URL_zero_def escape_def escape_byte_def
      shouldEscape_def between_def)

lemma resolvePath_signin: "resolvePath base ''/.pomerium/sign_in'' = ''/.pomerium/sign_in''"
  by (simp add: resolvePath_def resolve_elem_def TrimPrefix_def)

lemma setPath_signin:
  "setPath u ''/.pomerium/sign_in'' = Inr (u\<lparr>Path := ''/.pomerium/sign_in'', RawPath := []\<rparr>)"
  by (simp add: setPath_def escape_def escape_byte_def shouldEscape_def between_def)

lemma ResolveReference_signin:
  "ResolveReference u signin_reference =
     URL_zero\<lparr>Scheme := Scheme u, Host := Host u, User := User u, Path := ''/.pomerium/sign_in''\<rparr>"
  unfolding ResolveReference_def Let_def setPath_ignoring_error_def EscapedPath_signin
    resolvePath_signin setPath_signin
  by (simp add: signin_reference_def URL_zero_def)

lemma signinURL_eq:
  "signinURL a u =
     URL_zero\<lparr>Scheme := Scheme u, Host := Host u, User := User u, Path := ''/.pomerium/sign_in'',
              RawQuery := QueryEscape (QueryRedirectURI a) @ ''='' @ QueryEscape (String u)\<rparr>"
  unfolding signinURL_def Let_def ResolveReference_signin
  by (simp add: Query_def ParseQuery_def parseQuery_piece_def URL_zero_def Values_Set_def
      Values_Encode_def Values_lookup_def)

lemma String_example_url: "String example_url = ''http://a.com/foo?x=1''"
  by (simp add: String_def example_url_def URL_zero_def EscapedPath_def escape_def
      escape_byte_def shouldEscape_def between_def)

lemma QueryEscape_example:
  "QueryEscape ''http://a.com/foo?x=1'' = ''http%3A%2F%2Fa.com%2Ffoo%3Fx%3D1''"
  by (simp add: QueryEscape_def escape_def escape_byte_def shouldEscape_def between_def upperhex_def)

lemma QueryEscape_param: "QueryEscape ''pomerium_redirect_uri'' = ''pomerium_redirect_uri''"
  by (simp add: QueryEscape_def escape_def escape_byte_def shouldEscape_def between_def)

lemma String_example_signin:
  "String (signinURL (example_authorize verdict sesserr) example_url) =
   ''http://a.com/.pomerium/sign_in?pomerium_redirect_uri=http%3A%2F%2Fa.com%2Ffoo%3Fx%3D1''"
  unfolding signinURL_eq String_example_url
  by (simp add: example_authorize_def QueryEscape_example QueryEscape_param String_def
      example_url_def URL_zero_def EscapedPath_def escape_def escape_byte_def shouldEscape_def
      between_def)

section \<open>The decision of \<open>Check\<close>\<close>

text \<open>
  Claim C1. When the request URL is built, the evaluator answers with \<open>allow = false\<close> and
  the session store reports one of the five sentinel errors \<open>ErrExpired\<close>,
  \<open>ErrIssuedInTheFuture\<close>, \<open>ErrMalformed\<close>, \<open>ErrNoSessionFound\<close>, \<open>ErrNotValidYet\<close>,
  \<open>Check\<close> returns the redirect: status \<open>Unauthenticated\<close>, HTTP status \<open>Found\<close> and one
  header \<open>Location\<close> that holds the sign-in URL; it does not return the forbidden
  response, whatever its message.
\<close>

theorem Check_recoverable_redirects:
  assumes "getCheckRequestURL r = Return requestURL"
    and "loadSessionFromCheckRequest a r = (sess, Some e)"
    and "e \<in> {ErrExpired, ErrIssuedInTheFuture, ErrMalformed, ErrNoSessionFound, ErrNotValidYet}"
    and "pe_IsAuthorized a (Check_request r sess requestURL) = Inr reply"
    and "\<not> Allow reply"
  shows "Check a r =
           Return (Inr \<lparr>Response_Status = \<lparr>Code = Unauthenticated, Message = ''unauthenticated''\<rparr>,
                        Response_HttpResponse =
                          CheckResponse_DeniedResponse
                            \<lparr>Denied_Status = StatusCode_Found,
                             Denied_Headers = [(''Location'', String (signinURL a requestURL))]\<rparr>\<rparr>)
         \<and> Check a r \<noteq>
           Return (Inr \<lparr>Response_Status = \<lparr>Code = PermissionDenied, Message = msg\<rparr>,
                        Response_HttpResponse =
                          CheckResponse_DeniedResponse
                            \<lparr>Denied_Status = StatusCode_Forbidden, Denied_Headers = []\<rparr>\<rparr>)"
  using assms by (auto simp add: Check_def)


theorem Check_recoverable_redirects_witness:
  "Check (example_authorize (Inr \<lparr>Allow = False\<rparr>) (Some ErrExpired)) example_request =
     Return (Inr \<lparr>Response_Status = \<lparr>Code = Unauthenticated, Message = ''unauthenticated''\<rparr>,
                  Response_HttpResponse =
                    CheckResponse_DeniedResponse
                      \<lparr>Denied_Status = StatusCode_Found,
                       Denied_Headers =
                         [(''Location'',
                           ''http://a.com/.pomerium/sign_in?pomerium_redirect_uri=http%3A%2F%2Fa.com%2Ffoo%3Fx%3D1'')]\<rparr>\<rparr>)"
  using Check_recoverable_redirects [where a = "example_authorize (Inr \<lparr>Allow = False\<rparr>) (Some ErrExpired)"
      and r = example_request and requestURL = example_url and sess = "[]" and e = ErrExpired
      and reply = "\<lparr>Allow = False\<rparr>"]
  by (simp add: example_getCheckRequestURL example_loadSession example_pe String_example_signin)

text \<open>
  Claim C2. When the evaluator answers with \<open>allow = true\<close>, \<open>Check\<close> returns the OK status
  with the empty ok-response, whatever the session store reported, an error of any kind
  included.
\<close>

theorem Check_allow_is_ok:
  assumes "getCheckRequestURL r = Return requestURL"
    and "loadSessionFromCheckRequest a r = (sess, sesserr)"
    and "pe_IsAuthorized a (Check_request r sess requestURL) = Inr reply"
    and "Allow reply"
  shows "Check a r =
           Return (Inr \<lparr>Response_Status = \<lparr>Code = OK, Message = ''OK''\<rparr>,
                        Response_HttpResponse = CheckResponse_OkResponse\<rparr>)"
  using assms by (simp add: Check_def)

theorem Check_allow_is_ok_witness:
  "Check (example_authorize (Inr \<lparr>Allow = True\<rparr>) (Some (Err ''invalid key''))) example_request =
     Return (Inr \<lparr>Response_Status = \<lparr>Code = OK, Message = ''OK''\<rparr>,
                  Response_HttpResponse = CheckResponse_OkResponse\<rparr>)"
  using Check_allow_is_ok [where a = "example_authorize (Inr \<lparr>Allow = True\<rparr>) (Some (Err ''invalid key''))"
      and r = example_request and requestURL = example_url and sess = "[]"
      and sesserr = "Some (Err ''invalid key'')" and reply = "\<lparr>Allow = True\<rparr>"]
  by (simp add: example_getCheckRequestURL example_loadSession example_pe)

text \<open>
  Claim C3. When the evaluator answers with \<open>allow = false\<close> and the session store reports no
  error, \<open>Check\<close> returns the forbidden response with the empty message: status
  \<open>PermissionDenied\<close>, HTTP status \<open>Forbidden\<close> and no header.
\<close>

theorem Check_deny_without_session_error:
  assumes "getCheckRequestURL r = Return requestURL"
    and "loadSessionFromCheckRequest a r = (sess, None)"
    and "pe_IsAuthorized a (Check_request r sess requestURL) = Inr reply"
    and "\<not> Allow reply"
  shows "Check a r =
           Return (Inr \<lparr>Response_Status = \<lparr>Code = PermissionDenied, Message = []\<rparr>,
                        Response_HttpResponse =
                          CheckResponse_DeniedResponse
                            \<lparr>Denied_Status = StatusCode_Forbidden, Denied_Headers = []\<rparr>\<rparr>)"
  using assms by (simp add: Check_def)

theorem Check_deny_without_session_error_witness:
  "Check (example_authorize (Inr \<lparr>Allow = False\<rparr>) None) example_request =
     Return (Inr \<lparr>Response_Status = \<lparr>Code = PermissionDenied, Message = []\<rparr>,
                  Response_HttpResponse =
                    CheckResponse_DeniedResponse
                      \<lparr>Denied_Status = StatusCode_Forbidden, Denied_Headers = []\<rparr>\<rparr>)"
  using Check_deny_without_session_error [where a = "example_authorize (Inr \<lparr>Allow = False\<rparr>) None"
      and r = example_request and requestURL = example_url and sess = "[]"
      and reply = "\<lparr>Allow = False\<rparr>"]
  by (simp add: example_getCheckRequestURL example_loadSession example_pe)

text \<open>
  Claim C4 says that neither a failing session verification nor a failing evaluator ever
  surfaces as a failure of the call. For the evaluator the handler does the opposite: it
  returns the evaluator's error as the error of the call, as the sample call shows.
\<close>

theorem Check_evaluator_error_counterexample:
  "Check (example_authorize (Inl (Err ''policy evaluation failed'')) None) example_request =
     Return (Inl (Err ''policy evaluation failed''))"
  by (simp add: Check_def example_getCheckRequestURL example_loadSession example_pe)

text \<open>
  Claim C4, amended. When the session verification fails with an error that is none of the
  five sentinels (a failing signer or cookie store included) and the evaluator answers with
  \<open>allow = false\<close>, \<open>Check\<close> returns the forbidden response with status \<open>PermissionDenied\<close>
  and the error's message. When the evaluator itself fails, \<open>Check\<close> returns that error as
  the error of the call, whatever the session verification reported.
\<close>

theorem Check_internal_errors:
  assumes "getCheckRequestURL r = Return requestURL"
    and "loadSessionFromCheckRequest a r = (sess, sesserr)"
  shows "(sesserr = Some e
          \<and> e \<notin> {ErrExpired, ErrIssuedInTheFuture, ErrMalformed, ErrNoSessionFound, ErrNotValidYet}
          \<and> pe_IsAuthorized a (Check_request r sess requestURL) = Inr reply \<and> \<not> Allow reply \<longrightarrow>
            Check a r =
              Return (Inr \<lparr>Response_Status =
                             \<lparr>Code = PermissionDenied, Message = Error (sessions_text a) e\<rparr>,
                           Response_HttpResponse =
                             CheckResponse_DeniedResponse
                               \<lparr>Denied_Status = StatusCode_Forbidden, Denied_Headers = []\<rparr>\<rparr>))
         \<and> (pe_IsAuthorized a (Check_request r sess requestURL) = Inl err \<longrightarrow>
              Check a r = Return (Inl err))"
  using assms by (auto simp add: Check_def)

theorem Check_internal_errors_witness:
  "Check (example_authorize (Inr \<lparr>Allow = False\<rparr>) (Some (Err ''invalid key''))) example_request =
     Return (Inr \<lparr>Response_Status = \<lparr>Code = PermissionDenied, Message = ''invalid key''\<rparr>,
                  Response_HttpResponse =
                    CheckResponse_DeniedResponse
                      \<lparr>Denied_Status = StatusCode_Forbidden, Denied_Headers = []\<rparr>\<rparr>)
   \<and> Check (example_authorize (Inl (Err ''timeout'')) (Some (Err ''invalid key''))) example_request =
     Return (Inl (Err ''timeout''))
   \<and> Check (example_authorize (Inl (Err ''timeout'')) (Some ErrExpired)) example_request =
     Return (Inl (Err ''timeout''))
   \<and> Check (example_authorize (Inl (Err ''timeout'')) None) example_request =
     Return (Inl (Err ''timeout''))"
  using Check_internal_errors [where a = "example_authorize (Inr \<lparr>Allow = False\<rparr>) (Some (Err ''invalid key''))"
      and r = example_request and requestURL = example_url and sess = "[]"
      and sesserr = "Some (Err ''invalid key'')"
      and e = "Err ''invalid key''" and reply = "\<lparr>Allow = False\<rparr>"]
    Check_internal_errors [where a = "example_authorize (Inl (Err ''timeout'')) (Some (Err ''invalid key''))"
      and r = example_request and requestURL = example_url and sess = "[]"
      and sesserr = "Some (Err ''invalid key'')" and err = "Err ''timeout''"]
    Check_internal_errors [where a = "example_authorize (Inl (Err ''timeout'')) (Some ErrExpired)"
      and r = example_request and requestURL = example_url and sess = "[]"
      and sesserr = "Some ErrExpired" and err = "Err ''timeout''"]
    Check_internal_errors [where a = "example_authorize (Inl (Err ''timeout'')) None"
      and r = example_request and requestURL = example_url and sess = "[]"
      and sesserr = "None" and err = "Err ''timeout''"]
  by (simp add: example_getCheckRequestURL example_loadSession example_pe Error_def)

section \<open>The request URL and the headers of a check request\<close>

lemma Canonical_forwarded_upper: "CanonicalHeaderKey ''X-Forwarded-Proto'' = ''X-Forwarded-Proto''"
  by (simp add: CanonicalHeaderKey_def CanonicalMIMEHeaderKey_def validHeaderFieldByte_def between_def)

lemma Canonical_forwarded_lower: "CanonicalHeaderKey ''x-forwarded-proto'' = ''X-Forwarded-Proto''"
  by (simp add: CanonicalHeaderKey_def CanonicalMIMEHeaderKey_def canonicalMIMEHeaderKey_def
      validHeaderFieldByte_def between_def toLower_def Let_def char_of_eq_iff)

text \<open>
  Claim C7. When the HTTP attributes carry the scheme \<open>http\<close> and the header map holds
  \<open>https\<close> under the key \<open>x-forwarded-proto\<close>, the URL that \<open>getCheckRequestURL\<close> builds has
  the scheme \<open>https\<close>; host, path and query are those of the attributes.
\<close>

theorem forwarded_proto_overrides:
  assumes "GetHttp r = Some h"
    and "GetScheme h = ''http''"
    and "map_of (GetHeaders h) ''x-forwarded-proto'' = Some ''https''"
  shows "getCheckRequestURL r =
           Return (URL_zero\<lparr>Scheme := ''https'', Host := GetHost h, Path := GetPath h,
                            RawQuery := GetQuery h\<rparr>)"
  using assms by (simp add: getCheckRequestURL_def URL_zero_def)

theorem forwarded_proto_overrides_witness:
  "getCheckRequestURL \<lparr>GetHttp = Some (forwarded_http ''x-forwarded-proto''), GetSourceAddress = []\<rparr> =
     Return (URL_zero\<lparr>Scheme := ''https'', Host := ''a.com'', Path := ''/foo'', RawQuery := []\<rparr>)"
  using forwarded_proto_overrides [where r = "\<lparr>GetHttp = Some (forwarded_http ''x-forwarded-proto''),
        GetSourceAddress = []\<rparr>" and h = "forwarded_http ''x-forwarded-proto''"]
  by (simp add: forwarded_http_def)

text \<open>
  Claim C10. The override looks the header up under the lower-case key only: when the
  header map holds the forwarded protocol under a key of another casing (one with the
  same canonical form, such as \<open>X-Forwarded-Proto\<close>) and has no key \<open>x-forwarded-proto\<close>,
  the URL keeps the scheme of the attributes.
\<close>

theorem forwarded_proto_exact_key:
  assumes "GetHttp r = Some h"
    and "(k, v) \<in> set (GetHeaders h)"
    and "k \<noteq> ''x-forwarded-proto''"
    and "CanonicalHeaderKey k = CanonicalHeaderKey ''x-forwarded-proto''"
    and "''x-forwarded-proto'' \<notin> fst ` set (GetHeaders h)"
  shows "getCheckRequestURL r =
           Return (URL_zero\<lparr>Scheme := GetScheme h, Host := GetHost h, Path := GetPath h,
                            RawQuery := GetQuery h\<rparr>)"
proof -
  from assms(5) have "map_of (GetHeaders h) ''x-forwarded-proto'' = None"
    by (simp add: map_of_eq_None_iff)
  with assms(1) show ?thesis
    by (simp add: getCheckRequestURL_def URL_zero_def)
qed

theorem forwarded_proto_exact_key_witness:
  "getCheckRequestURL \<lparr>GetHttp = Some (forwarded_http ''X-Forwarded-Proto''), GetSourceAddress = []\<rparr> =
     Return (URL_zero\<lparr>Scheme := ''http'', Host := ''a.com'', Path := ''/foo'', RawQuery := []\<rparr>)"
proof -
  have "CanonicalHeaderKey ''X-Forwarded-Proto'' = CanonicalHeaderKey ''x-forwarded-proto''"
    by (simp only: Canonical_forwarded_upper Canonical_forwarded_lower)
  then show ?thesis
    using forwarded_proto_exact_key [where r = "\<lparr>GetHttp = Some (forwarded_http ''X-Forwarded-Proto''),
        GetSourceAddress = []\<rparr>" and h = "forwarded_http ''X-Forwarded-Proto''"
      and k = "''X-Forwarded-Proto''" and v = "''https''"]
    by (simp add: forwarded_http_def)
qed

lemma Canonical_x_foo: "CanonicalHeaderKey ''x-foo'' = ''X-Foo''"
  by (simp add: CanonicalHeaderKey_def CanonicalMIMEHeaderKey_def canonicalMIMEHeaderKey_def
      validHeaderFieldByte_def between_def toLower_def Let_def char_of_eq_iff)

lemma fold_headers_key:
  assumes "\<forall>(k, v) \<in> set hs. CanonicalHeaderKey k = K \<longrightarrow> v = b"
    and "m K = Some [b] \<or> (\<exists>(k, v) \<in> set hs. CanonicalHeaderKey k = K)"
  shows "foldl set_header m hs K = Some [b]"
  using assms
proof (induction hs arbitrary: m)
  case Nil
  then show ?case by simp
next
  case (Cons x hs)
  have all: "\<forall>(k, v) \<in> set hs. CanonicalHeaderKey k = K \<longrightarrow> v = b"
    using Cons.prems(1) by simp
  have "set_header m x K = Some [b] \<or> (\<exists>(k, v) \<in> set hs. CanonicalHeaderKey k = K)"
  proof (cases "CanonicalHeaderKey (fst x) = K")
    case True
    with Cons.prems(1) have "snd x = b" by (cases x) simp
    with True show ?thesis by (simp add: set_header_def)
  next
    case False
    with Cons.prems(2) show ?thesis by (cases x) (auto simp add: set_header_def)
  qed
  with all have "foldl set_header (set_header m x) hs K = Some [b]"
    by (rule Cons.IH)
  then show ?case by simp
qed

lemma fold_headers_None:
  assumes "m K = None" and "\<forall>(k, v) \<in> set hs. CanonicalHeaderKey k \<noteq> K"
  shows "foldl set_header m hs K = None"
  using assms
proof (induction hs arbitrary: m)
  case Nil
  then show ?case by simp
next
  case (Cons x hs)
  from Cons.prems have "set_header m x K = None"
    by (cases x) (auto simp add: set_header_def)
  moreover from Cons.prems have "\<forall>(k, v) \<in> set hs. CanonicalHeaderKey k \<noteq> K" by simp
  ultimately have "foldl set_header (set_header m x) hs K = None"
    by (rule Cons.IH)
  then show ?case by simp
qed

lemma canonical_first_not_x: "canonical_bytes True k \<noteq> CHR ''x'' # s"
proof (cases k)
  case Nil
  then show ?thesis by simp
next
  case (Cons c t)
  have "byte c < 256" by simp
  then have "(if between CHR ''a'' CHR ''z'' c then char_of (byte c - toLower) else c) \<noteq> CHR ''x''"
    by (auto simp add: between_def toLower_def char_of_eq_iff take_bit_eq_mod)
  with Cons show ?thesis by (auto simp add: Let_def split: if_splits)
qed

lemma CanonicalHeaderKey_not_x_foo: "CanonicalHeaderKey k \<noteq> ''x-foo''"
proof
  assume a: "CanonicalHeaderKey k = ''x-foo''"
  have nc: "needs_canonical True ''x-foo''"
    by (simp add: validHeaderFieldByte_def between_def)
  have valid: "\<not> (\<exists>c \<in> set ''x-foo''. \<not> validHeaderFieldByte c)"
    by (simp add: validHeaderFieldByte_def between_def)
  show False
  proof (cases "needs_canonical True k")
    case False
    with a have "k = ''x-foo''" by (simp add: CanonicalHeaderKey_def CanonicalMIMEHeaderKey_def)
    with False nc show False by simp
  next
    case True
    show False
    proof (cases "\<exists>c \<in> set k. \<not> validHeaderFieldByte c")
      case True
      with a \<open>needs_canonical True k\<close> have "k = ''x-foo''"
        by (simp add: CanonicalHeaderKey_def CanonicalMIMEHeaderKey_def canonicalMIMEHeaderKey_def)
      with True valid show False by simp
    next
      case False
      with a \<open>needs_canonical True k\<close> have "canonical_bytes True k = ''x-foo''"
        by (simp add: CanonicalHeaderKey_def CanonicalMIMEHeaderKey_def canonicalMIMEHeaderKey_def)
      with canonical_first_not_x show False by blast
    qed
  qed
qed

text \<open>
  Claim C8 says that the entry \<open>x-foo: bar\<close> always arrives as \<open>X-Foo: [bar]\<close>. The keys of the
  header map are case-sensitive, so a map can hold \<open>x-foo\<close> and \<open>X-Foo\<close> side by side; the
  loop writes both under \<open>X-Foo\<close>, and the entry that the loop visits last wins.
\<close>

theorem headers_collision_counterexample:
  "distinct (map fst (GetHeaders colliding_http))
   \<and> (''x-foo'', ''bar'') \<in> set (GetHeaders colliding_http)
   \<and> getCheckRequestHeaders \<lparr>GetHttp = Some colliding_http, GetSourceAddress = []\<rparr> ''X-Foo''
       = Some [''baz'']"
  by (simp add: getCheckRequestHeaders_def http_Headers_def colliding_http_def set_header_def
      CanonicalHeaderKey_def CanonicalMIMEHeaderKey_def canonicalMIMEHeaderKey_def
      validHeaderFieldByte_def between_def toLower_def Let_def char_of_eq_iff)

text \<open>
  Claim C8, amended. When the header map holds the entry \<open>x-foo: bar\<close> and every entry whose
  key has the canonical form \<open>X-Foo\<close> has the value \<open>bar\<close>, the canonical header map holds
  \<open>[bar]\<close> under \<open>X-Foo\<close>, and nothing under \<open>x-foo\<close>.
\<close>

theorem headers_canonical_key:
  assumes "GetHttp r = Some h"
    and "(''x-foo'', ''bar'') \<in> set (GetHeaders h)"
    and "\<forall>(k, v) \<in> set (GetHeaders h). CanonicalHeaderKey k = ''X-Foo'' \<longrightarrow> v = ''bar''"
  shows "getCheckRequestHeaders r ''X-Foo'' = Some [''bar'']
         \<and> getCheckRequestHeaders r ''x-foo'' = None"
proof
  from assms(2) have "\<exists>(k, v) \<in> set (GetHeaders h). CanonicalHeaderKey k = ''X-Foo''"
    using Canonical_x_foo by blast
  with assms(3) have "foldl set_header Map.empty (GetHeaders h) ''X-Foo''
      = Some [''bar'']"
    by (intro fold_headers_key) simp_all
  with assms(1) show "getCheckRequestHeaders r ''X-Foo'' = Some [''bar'']"
    by (simp add: getCheckRequestHeaders_def http_Headers_def)
  have "foldl set_header Map.empty (GetHeaders h) ''x-foo'' = None"
    by (rule fold_headers_None) (simp_all add: CanonicalHeaderKey_not_x_foo split_beta)
  with assms(1) show "getCheckRequestHeaders r ''x-foo'' = None"
    by (simp add: getCheckRequestHeaders_def http_Headers_def)
qed


theorem headers_canonical_key_witness:
  "getCheckRequestHeaders example_request ''X-Foo'' = Some [''bar'']
   \<and> getCheckRequestHeaders example_request ''x-foo'' = None"
  using headers_canonical_key [where r = example_request and h = example_http]
  by (simp add: example_request_def example_http_def)

section \<open>The URL of the native call: \<open>getFullURL\<close>\<close>

lemma Parse_rooted: "Parse ''/foo'' = Inr (URL_zero\<lparr>Path := ''/foo''\<rparr>)"
  by (simp add: Parse_def split_def parse_def stringContainsCTLByte_def getscheme_def
      between_def HasSuffix_def parse_authority_and_path_def setPath_def ToLower_def
      URL_zero_def escape_def escape_byte_def shouldEscape_def)

lemma Parse_scenario: "Parse ''/foo?x=1'' = Inr (URL_zero\<lparr>Path := ''/foo'', RawQuery := ''x=1''\<rparr>)"
  by (simp add: Parse_def split_def parse_def stringContainsCTLByte_def getscheme_def
      between_def HasSuffix_def parse_authority_and_path_def setPath_def ToLower_def
      URL_zero_def escape_def escape_byte_def shouldEscape_def)

lemma Parse_opaque:
  "Parse ''mailto:joe@x.org'' = Inr (URL_zero\<lparr>Scheme := ''mailto'', Opaque := ''joe@x.org''\<rparr>)"
  by (simp add: Parse_def split_def parse_def stringContainsCTLByte_def getscheme_def
      between_def HasSuffix_def ToLower_def URL_zero_def)

lemma Parse_with_host:
  "Parse ''https://b.org/x'' = Inr (URL_zero\<lparr>Scheme := ''https'', Host := ''b.org'', Path := ''/x''\<rparr>)"
  by (simp add: Parse_def split_def parse_def stringContainsCTLByte_def getscheme_def
      between_def HasSuffix_def ToLower_def URL_zero_def parse_authority_and_path_def
      parseAuthority_def parseHost_def setPath_def escape_def escape_byte_def shouldEscape_def)

lemma String_Scheme_prefix:
  assumes "Scheme u \<noteq> []"
  shows "\<exists>rest. String u = Scheme u @ '':'' @ rest"
  using assms by (simp add: String_def Let_def)

lemma String_hierarchical:
  assumes "Scheme u \<noteq> []" and "Opaque u = []" and "Host u \<noteq> []"
  shows "String u =
           Scheme u @ ''://''
           @ (case User u of None \<Rightarrow> [] | Some ui \<Rightarrow> Userinfo_String ui @ ''@'')
           @ escape (Host u) encodeHost
           @ (if EscapedPath u \<noteq> [] \<and> hd (EscapedPath u) \<noteq> CHR ''/'' then ''/'' else [])
           @ EscapedPath u
           @ (if ForceQuery u \<or> RawQuery u \<noteq> [] then ''?'' @ RawQuery u else [])
           @ (if Fragment u \<noteq> [] then ''#'' @ escape (Fragment u) encodeFragment else [])"
  using assms by (simp add: String_def Let_def)

lemma escape_nonempty: "s \<noteq> [] \<Longrightarrow> escape s mode \<noteq> []"
  by (cases s) (auto simp add: escape_def escape_byte_def)

lemma getFullURL_u_fields:
  "Opaque (getFullURL_u rawurl host) = Opaque (getFullURL_parsed rawurl)"
  "User (getFullURL_u rawurl host) = User (getFullURL_parsed rawurl)"
  "Path (getFullURL_u rawurl host) = Path (getFullURL_parsed rawurl)"
  "RawPath (getFullURL_u rawurl host) = RawPath (getFullURL_parsed rawurl)"
  "ForceQuery (getFullURL_u rawurl host) = ForceQuery (getFullURL_parsed rawurl)"
  "RawQuery (getFullURL_u rawurl host) = RawQuery (getFullURL_parsed rawurl)"
  "Fragment (getFullURL_u rawurl host) = Fragment (getFullURL_parsed rawurl)"
  "Scheme (getFullURL_u rawurl host) =
     (if Scheme (getFullURL_parsed rawurl) = [] then ''http'' else Scheme (getFullURL_parsed rawurl))"
  "Host (getFullURL_u rawurl host) =
     (if Host (getFullURL_parsed rawurl) = [] then host else Host (getFullURL_parsed rawurl))"
  by (simp_all add: getFullURL_u_def Let_def)

lemma EscapedPath_getFullURL_u:
  "EscapedPath (getFullURL_u rawurl host) = EscapedPath (getFullURL_parsed rawurl)"
  by (simp add: EscapedPath_def getFullURL_u_fields)


text \<open>
  Claim C6 says that the URL of the canonical request has a scheme and a host for every
  raw URL and every host string. The host field of the request can be empty: for the raw
  URL \<open>/foo\<close> and the empty host the URL value keeps an empty host, and the URL that
  \<open>getFullURL\<close> returns is \<open>http:///foo\<close>.
\<close>

theorem getFullURL_empty_host_counterexample:
  "Host (getFullURL_u ''/foo'' []) = [] \<and> getFullURL ''/foo'' [] = ''http:///foo''"
  by (simp add: getFullURL_def getFullURL_u_def getFullURL_parsed_def Parse_rooted URL_zero_def
      Let_def String_def EscapedPath_def escape_def escape_byte_def shouldEscape_def between_def)


text \<open>
  A raw URL with a scheme and no slash after it is opaque, and an opaque URL is printed
  without its host, whatever the host field holds.
\<close>

lemma getFullURL_opaque_example: "getFullURL ''mailto:joe@x.org'' ''a.com'' = ''mailto:joe@x.org''"
  by (simp add: getFullURL_def getFullURL_u_def getFullURL_parsed_def Parse_opaque URL_zero_def
      Let_def String_def)

text \<open>
  Claim C6, amended. For every raw URL and every host string, the URL that \<open>getFullURL\<close>
  returns starts with a non-empty scheme and a colon: the scheme of the parsed raw URL, and
  \<open>http\<close> when that is empty. When the parsed raw URL is not opaque and either it carries a
  host or the host field of the request is not empty, the returned URL is the scheme, then
  \<open>://\<close>, the user information if there is one, and the non-empty escaped host, which is the
  host of the raw URL or else the host field; path, query and fragment follow.
\<close>

theorem getFullURL_scheme_and_host:
  "(let p = getFullURL_parsed rawurl;
        scheme = (if Scheme p = [] then ''http'' else Scheme p);
        h = (if Host p = [] then host else Host p)
    in (\<exists>rest. getFullURL rawurl host = scheme @ '':'' @ rest)
       \<and> scheme \<noteq> []
       \<and> (Opaque p = [] \<and> (Host p \<noteq> [] \<or> host \<noteq> []) \<longrightarrow>
            escape h encodeHost \<noteq> []
            \<and> getFullURL rawurl host =
                scheme @ ''://''
                @ (case User p of None \<Rightarrow> [] | Some ui \<Rightarrow> Userinfo_String ui @ ''@'')
                @ escape h encodeHost
                @ (if EscapedPath p \<noteq> [] \<and> hd (EscapedPath p) \<noteq> CHR ''/'' then ''/'' else [])
                @ EscapedPath p
                @ (if ForceQuery p \<or> RawQuery p \<noteq> [] then ''?'' @ RawQuery p else [])
                @ (if Fragment p \<noteq> [] then ''#'' @ escape (Fragment p) encodeFragment else [])))"
proof -
  let ?p = "getFullURL_parsed rawurl"
  let ?u = "getFullURL_u rawurl host"
  have scheme: "Scheme ?u \<noteq> []"
    by (simp add: getFullURL_u_fields)
  from String_Scheme_prefix [OF scheme]
  have pre: "\<exists>rest. getFullURL rawurl host = Scheme ?u @ '':'' @ rest"
    by (simp add: getFullURL_def)
  have hier: "getFullURL rawurl host =
           Scheme ?u @ ''://''
           @ (case User ?u of None \<Rightarrow> [] | Some ui \<Rightarrow> Userinfo_String ui @ ''@'')
           @ escape (Host ?u) encodeHost
           @ (if EscapedPath ?u \<noteq> [] \<and> hd (EscapedPath ?u) \<noteq> CHR ''/'' then ''/'' else [])
           @ EscapedPath ?u
           @ (if ForceQuery ?u \<or> RawQuery ?u \<noteq> [] then ''?'' @ RawQuery ?u else [])
           @ (if Fragment ?u \<noteq> [] then ''#'' @ escape (Fragment ?u) encodeFragment else [])"
    if "Opaque ?p = []" and "Host ?p \<noteq> [] \<or> host \<noteq> []"
  proof -
    from that have "Opaque ?u = []" and "Host ?u \<noteq> []"
      by (auto simp add: getFullURL_u_fields)
    with scheme show ?thesis
      unfolding getFullURL_def by (rule String_hierarchical)
  qed
  have host: "escape (Host ?u) encodeHost \<noteq> []" if "Host ?p \<noteq> [] \<or> host \<noteq> []"
    using that by (intro escape_nonempty) (auto simp add: getFullURL_u_fields)
  show ?thesis
    unfolding Let_def
    using pre hier host
    by (simp only: getFullURL_u_fields EscapedPath_getFullURL_u) simp
qed

theorem getFullURL_scheme_and_host_witness:
  "getFullURL ''/foo?x=1'' ''a.com'' = ''http://a.com/foo?x=1''
   \<and> getFullURL ''https://b.org/x'' ''a.com'' = ''https://b.org/x''"
proof -
  have p1: "getFullURL_parsed ''/foo?x=1'' = URL_zero\<lparr>Path := ''/foo'', RawQuery := ''x=1''\<rparr>"
    by (simp add: getFullURL_parsed_def Parse_scenario)
  have p2: "getFullURL_parsed ''https://b.org/x'' =
      URL_zero\<lparr>Scheme := ''https'', Host := ''b.org'', Path := ''/x''\<rparr>"
    by (simp add: getFullURL_parsed_def Parse_with_host)
  have e: "escape ''a.com'' encodeHost = ''a.com''" "escape ''b.org'' encodeHost = ''b.org''"
    by (simp_all add: escape_def escape_byte_def shouldEscape_def between_def)
  show ?thesis
    using getFullURL_scheme_and_host [of "''/foo?x=1''" "''a.com''"]
      getFullURL_scheme_and_host [of "''https://b.org/x''" "''a.com''"]
    unfolding p1 p2
    by (simp add: URL_zero_def Let_def e EscapedPath_def escape_def escape_byte_def
        shouldEscape_def between_def)
qed

lemma getFullURL_u_Scheme: "Scheme (getFullURL_u rawurl host) \<noteq> []"
  by (simp add: getFullURL_u_def Let_def)

lemma getFullURL_nonempty: "getFullURL rawurl host \<noteq> []"
  using String_Scheme_prefix [OF getFullURL_u_Scheme, of rawurl host]
  by (auto simp add: getFullURL_def)

lemma escape_example_host: "escape ''example.com'' encodeHost = ''example.com''"
  by (simp add: escape_def escape_byte_def shouldEscape_def between_def)

lemma Parse_star: "Parse ''*'' = Inr (URL_zero\<lparr>Path := ''*''\<rparr>)"
  by (simp add: Parse_def split_def parse_def stringContainsCTLByte_def)

lemma getFullURL_u_fallback:
  assumes "Parse rawurl = Inl e"
  shows "getFullURL_u rawurl host = URL_zero\<lparr>Path := rawurl, Host := host, Scheme := ''http''\<rparr>"
  using assms by (simp add: getFullURL_u_def getFullURL_parsed_def URL_zero_def Let_def)

lemma EscapedPath_fallback:
  assumes "Parse rawurl = Inl e"
  shows "EscapedPath (URL_zero\<lparr>Path := rawurl, Host := host, Scheme := ''http''\<rparr>) = escape rawurl encodePath"
proof -
  from assms have "rawurl \<noteq> ''*''" using Parse_star by auto
  then show ?thesis by (simp add: EscapedPath_def URL_zero_def)
qed

lemma Parse_bad_escape: "Parse ''%zz'' = Inl (EscapeError ''%zz'')"
  by (simp add: Parse_def split_def parse_def stringContainsCTLByte_def getscheme_def
      between_def HasSuffix_def parse_authority_and_path_def setPath_def ishex_def ToLower_def
      URL_zero_def)

text \<open>
  Claim C9. \<open>getFullURL\<close> returns a non-empty string for every raw URL and every host. When
  \<open>url.Parse\<close> rejects the raw URL and the host is \<open>example.com\<close>, the URL value has the host
  \<open>example.com\<close>, and the result is \<open>http://example.com\<close> followed by the raw string escaped
  as a path, with a slash in between unless the path starts with one.
\<close>

theorem getFullURL_total:
  "getFullURL rawurl host \<noteq> []
   \<and> (Parse rawurl = Inl e \<longrightarrow>
        Host (getFullURL_u rawurl ''example.com'') = ''example.com''
        \<and> getFullURL rawurl ''example.com'' =
            ''http://example.com''
            @ (if escape rawurl encodePath \<noteq> [] \<and> hd (escape rawurl encodePath) \<noteq> CHR ''/''
               then ''/'' else [])
            @ escape rawurl encodePath)"
proof (intro conjI impI)
  show "getFullURL rawurl host \<noteq> []" by (rule getFullURL_nonempty)
next
  assume f: "Parse rawurl = Inl e"
  show "Host (getFullURL_u rawurl ''example.com'') = ''example.com''"
    by (simp add: getFullURL_u_fallback [OF f] URL_zero_def)
  show "getFullURL rawurl ''example.com'' =
            ''http://example.com''
            @ (if escape rawurl encodePath \<noteq> [] \<and> hd (escape rawurl encodePath) \<noteq> CHR ''/''
               then ''/'' else [])
            @ escape rawurl encodePath"
    unfolding getFullURL_def getFullURL_u_fallback [OF f] String_def Let_def
      EscapedPath_fallback [OF f]
    by (simp add: URL_zero_def escape_example_host)
qed

theorem getFullURL_total_witness:
  "getFullURL ''%zz'' ''example.com'' = ''http://example.com/%25zz''
   \<and> Host (getFullURL_u ''%zz'' ''example.com'') = ''example.com''"
  using getFullURL_total [of "''%zz''" "''example.com''" "EscapeError ''%zz''"]
  by (simp add: Parse_bad_escape escape_def escape_byte_def shouldEscape_def between_def upperhex_def)

section \<open>The round trip of the redirect parameter\<close>



lemma byte_nibbles: "char_of (byte c div 16 * 16 + byte c mod 16) = c"
  by simp















end
